theory Spec2Isabelle
  imports Complex_Main "HOL-Library.Word" "HOL-Library.AList"
begin

section \<open>Data model\<close>

text \<open>
  The notebook \<^verbatim>\<open>rasterio_plotting.ipynb\<close> keeps one Python dict per scene
  (\<^verbatim>\<open>landsat_bands\<close>): the band arrays under their role names (\<^verbatim>\<open>'red'\<close>,
  \<^verbatim>\<open>'green'\<close>, \<^verbatim>\<open>'blue'\<close>, \<^verbatim>\<open>'qa'\<close>), the rasterio profile under \<^verbatim>\<open>'profile'\<close>
  and, once built, the colour image under \<^verbatim>\<open>'rgb'\<close>.

  A numpy array is a shape and a flat row-major buffer. Raw bands hold integer digital
  numbers (\<^verbatim>\<open>src.read(1)\<close> of a Landsat file is a 2-D uint16 array), so their elements
  are \<open>int\<close>; the normalised bands are \<^verbatim>\<open>uint8\<close>, that is \<open>8 word\<close>.
\<close>

datatype 'a ndarray = NDArray (shape: "nat list") (data: "'a list")

text \<open>A double that may be the missing-value marker \<^verbatim>\<open>np.nan\<close>.\<close>

datatype float64 = NaN | Finite real

text \<open>
  The exceptions the modelled code can raise. \<open>IndexError\<close> is the one of
  \<^verbatim>\<open>numpy.ma.masked_where\<close> and carries the two shapes its message prints.
\<close>

datatype py_error =
    KeyError string
  | UnboundLocalError string
  | IndexError "nat list" "nat list"
  | ValueError string
  | TypeError string
  | RasterioError string

text \<open>
  A rasterio profile is an ordered mapping from option names to values; the affine
  transform, the coordinate reference system and the like are opaque here.
\<close>

datatype pval = Str string | Num int | Opaque string

type_synonym profile_t = "(string \<times> pval) list"

type_synonym addr = nat

text \<open>
  The scene dict. The profile is a mutable object, so the dict holds its address and
  the object itself lives in the store.
\<close>

record bands =
  arrays :: "string \<rightharpoonup> int ndarray"
  profile :: "addr option"
  rgb :: "8 word ndarray option"

section \<open>The array library\<close>

text \<open>
  \<^verbatim>\<open>create_rgb_stack\<close> calls three numeric kernels of numpy and scikit-image whose code
  is not part of the repository: the percentile of a sample, \<^verbatim>\<open>exposure.rescale_intensity\<close>
  and \<^verbatim>\<open>exposure.equalize_adapthist\<close>. They are parameters of the model. A kernel may
  raise, so the two array kernels return a sum. The entries of a float array are the
  real values of its doubles; the product of two doubles is rounded to a double by the
  machine, and that rounded product (\<open>float_mul\<close>) is a parameter as well.
\<close>

record numlib =
  percentile_of :: "real list \<Rightarrow> real \<Rightarrow> real"
  rescale_intensity :: "int ndarray \<Rightarrow> float64 \<times> float64 \<Rightarrow> py_error + int ndarray"
  equalize_adapthist :: "int ndarray \<Rightarrow> real \<Rightarrow> py_error + real ndarray"
  float_mul :: "real \<Rightarrow> real \<Rightarrow> real"

text \<open>\<^verbatim>\<open>d[k]\<close> on a dict: a missing key raises \<^verbatim>\<open>KeyError\<close>.\<close>

definition getitem :: "(string \<rightharpoonup> 'v) \<Rightarrow> string \<Rightarrow> py_error + 'v" where
  "getitem d k = (case d k of None \<Rightarrow> Inl (KeyError k) | Some v \<Rightarrow> Inr v)"

text \<open>\<^verbatim>\<open>a == c\<close> for an array and a scalar: the boolean array of the same shape.\<close>

definition eq_scalar :: "int ndarray \<Rightarrow> int \<Rightarrow> bool ndarray" where
  "eq_scalar a c = NDArray (shape a) (map (\<lambda>x. x = c) (data a))"

text \<open>
  \<^verbatim>\<open>np.ma.masked_where(condition, a)\<close>: a masked array is the data with a mask beside it.
  numpy compares the shapes unless the condition is 0-dimensional (then the single
  flag is broadcast) and raises \<^verbatim>\<open>IndexError("Inconsistent shape between the condition
  and the input (got %s and %s)")\<close>.
\<close>

datatype 'a masked_array = MaskedArray (ma_data: "'a ndarray") (ma_mask: "bool list")

definition masked_where :: "bool ndarray \<Rightarrow> 'a ndarray \<Rightarrow> py_error + 'a masked_array" where
  "masked_where cond a =
     (if shape cond \<noteq> [] \<and> shape cond \<noteq> shape a then Inl (IndexError (shape cond) (shape a))
      else if shape cond = shape a then Inr (MaskedArray a (data cond))
      else Inr (MaskedArray a (replicate (length (data a)) (list_ex id (data cond)))))"

text \<open>\<^verbatim>\<open>m.astype('float')\<close> on a masked integer array, then \<^verbatim>\<open>np.ma.filled(m, np.nan)\<close>.\<close>

definition astype_float :: "int ndarray \<Rightarrow> float64 ndarray" where
  "astype_float a = NDArray (shape a) (map (\<lambda>x. Finite (of_int x)) (data a))"

definition ma_astype_float :: "int masked_array \<Rightarrow> float64 masked_array" where
  "ma_astype_float m = MaskedArray (astype_float (ma_data m)) (ma_mask m)"

definition filled :: "'a masked_array \<Rightarrow> 'a \<Rightarrow> 'a ndarray" where
  "filled m v =
     NDArray (shape (ma_data m))
       (map (\<lambda>(masked, x). if masked then v else x) (zip (ma_mask m) (data (ma_data m))))"

text \<open>
  \<^verbatim>\<open>np.nanpercentile(a, (q1, q2))\<close>: the percentiles of the entries that are not NaN.
  numpy rejects a percentile outside [0, 100] with a \<^verbatim>\<open>ValueError\<close> before it looks at the
  data. For an array of size 0 it answers with one scalar NaN (the mean of nothing), not
  with a pair; for a non-empty array it answers with the array of the two percentiles,
  both NaN when every entry is NaN. How a percentile is interpolated between two samples
  is the library's choice (\<open>percentile_of\<close>).
\<close>

datatype np_result = Scalar float64 | Vector "float64 list"

fun finite_values :: "float64 list \<Rightarrow> real list" where
  "finite_values [] = []"
| "finite_values (NaN # xs) = finite_values xs"
| "finite_values (Finite x # xs) = x # finite_values xs"

definition valid_q :: "real \<Rightarrow> bool" where
  "valid_q q = (0 \<le> q \<and> q \<le> 100)"

definition nanpercentile ::
  "numlib \<Rightarrow> float64 ndarray \<Rightarrow> real \<times> real \<Rightarrow> py_error + np_result" where
  "nanpercentile L a q =
     (if \<not> (valid_q (fst q) \<and> valid_q (snd q))
      then Inl (ValueError ''Percentiles must be in the range [0, 100]'')
      else if data a = [] then Inr (Scalar NaN)
      else (case finite_values (data a) of
              [] \<Rightarrow> Inr (Vector [NaN, NaN])
            | x # xs \<Rightarrow> Inr (Vector [Finite (percentile_of L (x # xs) (fst q)),
                                     Finite (percentile_of L (x # xs) (snd q))])))"

text \<open>
  The tuple assignment \<^verbatim>\<open>vmin, vmax = ...\<close>: a scalar cannot be unpacked (\<^verbatim>\<open>TypeError\<close>),
  and an array must have exactly two entries (\<^verbatim>\<open>ValueError\<close>).
\<close>

fun unpack2 :: "np_result \<Rightarrow> py_error + float64 \<times> float64" where
  "unpack2 (Scalar x) = Inl (TypeError ''cannot unpack non-iterable numpy.float64 object'')"
| "unpack2 (Vector [x, y]) = Inr (x, y)"
| "unpack2 (Vector (x # y # z # zs)) = Inl (ValueError ''too many values to unpack (expected 2)'')"
| "unpack2 (Vector xs) = Inl (ValueError ''not enough values to unpack'')"

text \<open>
  \<^verbatim>\<open>a.astype(np.uint8)\<close> on an integer array keeps the low eight bits.
  \<^verbatim>\<open>(a * 255)\<close> on a float array is the rounded product of each entry with 255, and
  \<^verbatim>\<open>.astype(np.uint8)\<close> on it drops the fraction (towards zero); a value outside [0, 256)
  has no defined cast in C, and the model keeps the low eight bits of the truncated value
  there.
\<close>

definition astype_uint8 :: "int ndarray \<Rightarrow> 8 word ndarray" where
  "astype_uint8 a = NDArray (shape a) (map word_of_int (data a))"

definition trunc :: "real \<Rightarrow> int" where
  "trunc r = (if 0 \<le> r then \<lfloor>r\<rfloor> else \<lceil>r\<rceil>)"

definition times_scalar :: "numlib \<Rightarrow> real ndarray \<Rightarrow> real \<Rightarrow> real ndarray" where
  "times_scalar L a k = NDArray (shape a) (map (\<lambda>r. float_mul L r k) (data a))"

definition float_astype_uint8 :: "real ndarray \<Rightarrow> 8 word ndarray" where
  "float_astype_uint8 a = NDArray (shape a) (map (\<lambda>r. word_of_int (trunc r)) (data a))"

text \<open>
  \<^verbatim>\<open>np.stack(arrays)\<close>: numpy collects the set of shapes and raises
  \<^verbatim>\<open>ValueError('all input arrays must have the same shape')\<close> unless there is exactly one;
  the result has the new axis in front.
\<close>

definition np_stack :: "'a ndarray list \<Rightarrow> py_error + 'a ndarray" where
  "np_stack as =
     (case as of
        [] \<Rightarrow> Inl (ValueError ''need at least one array to stack'')
      | a # _ \<Rightarrow>
          if length (remdups (map shape as)) \<noteq> 1
          then Inl (ValueError ''all input arrays must have the same shape'')
          else Inr (NDArray (length as # shape a) (concat (map data as))))"

section \<open>create_rgb_stack\<close>

text \<open>
  The \<^verbatim>\<open>try\<close> block of the rescaling branch: the fill mask is \<^verbatim>\<open>bands['qa'] == 1\<close>; the
  masked pixels of a float copy of the band become NaN. Only the \<^verbatim>\<open>KeyError\<close> of a
  missing \<^verbatim>\<open>'qa'\<close> is caught, and then \<^verbatim>\<open>masked_band = band\<close> (read as numbers by the
  percentile).
\<close>

definition fill_mask :: "int ndarray \<Rightarrow> bool ndarray" where
  "fill_mask qa = eq_scalar qa 1"

definition masked_band :: "bands \<Rightarrow> int ndarray \<Rightarrow> py_error + float64 ndarray" where
  "masked_band bs band =
     (case getitem (arrays bs) ''qa'' of
        Inl (KeyError k) \<Rightarrow> Inr (astype_float band)
      | Inl e \<Rightarrow> Inl e
      | Inr qa \<Rightarrow>
          (case masked_where (fill_mask qa) band of
             Inl e \<Rightarrow> Inl e
           | Inr m \<Rightarrow> Inr (filled (ma_astype_float m) NaN)))"

text \<open>
  The body of the \<^verbatim>\<open>for band in [...]\<close> loop up to the value of \<^verbatim>\<open>modified_band\<close>. With
  a method that is neither \<^verbatim>\<open>'rescaling'\<close> nor \<^verbatim>\<open>'clahe'\<close> no branch assigns the local, and
  \<^verbatim>\<open>modified_bands.append(modified_band)\<close> raises \<^verbatim>\<open>UnboundLocalError\<close> in the first
  iteration.
\<close>

definition modify_band ::
  "numlib \<Rightarrow> bands \<Rightarrow> string \<Rightarrow> real \<Rightarrow> real \<Rightarrow> int ndarray \<Rightarrow> py_error + 8 word ndarray" where
  "modify_band L bs method percentile clip_limit band =
     (if method = ''rescaling'' then
        (case masked_band bs band of
           Inl e \<Rightarrow> Inl e
         | Inr mb \<Rightarrow>
             (case nanpercentile L mb (percentile, 100 - percentile) of
                Inl e \<Rightarrow> Inl e
              | Inr percentiles \<Rightarrow>
                  (case unpack2 percentiles of
                     Inl e \<Rightarrow> Inl e
                   | Inr (vmin, vmax) \<Rightarrow>
                       (case rescale_intensity L band (vmin, vmax) of
                          Inl e \<Rightarrow> Inl e
                        | Inr modified_band \<Rightarrow> Inr (astype_uint8 modified_band)))))
      else if method = ''clahe'' then
        (case equalize_adapthist L band clip_limit of
           Inl e \<Rightarrow> Inl e
         | Inr modified_band \<Rightarrow> Inr (float_astype_uint8 (times_scalar L modified_band 255)))
      else Inl (UnboundLocalError ''modified_band''))"

fun modify_bands ::
  "numlib \<Rightarrow> bands \<Rightarrow> string \<Rightarrow> real \<Rightarrow> real \<Rightarrow> int ndarray list \<Rightarrow> 8 word ndarray list
     \<Rightarrow> py_error + 8 word ndarray list" where
  "modify_bands L bs method percentile clip_limit [] modified_bands = Inr modified_bands"
| "modify_bands L bs method percentile clip_limit (band # rest) modified_bands =
     (case modify_band L bs method percentile clip_limit band of
        Inl e \<Rightarrow> Inl e
      | Inr modified_band \<Rightarrow>
          modify_bands L bs method percentile clip_limit rest (modified_bands @ [modified_band]))"

definition create_rgb_stack ::
  "numlib \<Rightarrow> bands \<Rightarrow> string \<Rightarrow> real \<Rightarrow> real \<Rightarrow> py_error + 8 word ndarray" where
  "create_rgb_stack L bs method percentile clip_limit =
     (case getitem (arrays bs) ''red'' of
        Inl e \<Rightarrow> Inl e
      | Inr red \<Rightarrow>
     (case getitem (arrays bs) ''green'' of
        Inl e \<Rightarrow> Inl e
      | Inr green \<Rightarrow>
     (case getitem (arrays bs) ''blue'' of
        Inl e \<Rightarrow> Inl e
      | Inr blue \<Rightarrow>
     (case modify_bands L bs method percentile clip_limit [red, green, blue] [] of
        Inl e \<Rightarrow> Inl e
      | Inr modified_bands \<Rightarrow> np_stack modified_bands))))"

section \<open>write_rgb_image\<close>

text \<open>
  The store holds the profile objects; the files are the rasters rasterio has created,
  each with the metadata it was opened with and the bands written so far. Whether
  \<^verbatim>\<open>rasterio.open\<close> or \<^verbatim>\<open>dst.write_band\<close> raises (an unwritable path, a band that does not
  fit the metadata) is decided outside the repository and is a parameter.
\<close>

record raster_file =
  meta :: profile_t
  file_bands :: "nat \<rightharpoonup> 8 word ndarray"

record pystate =
  heap :: "addr \<Rightarrow> profile_t"
  files :: "string \<rightharpoonup> raster_file"

record rasterio_env =
  open_raises :: "string \<Rightarrow> profile_t \<Rightarrow> py_error option"
  write_band_raises :: "profile_t \<Rightarrow> nat \<Rightarrow> 8 word ndarray \<Rightarrow> py_error option"

text \<open>
  \<^verbatim>\<open>d.update(k1=v1, ...)\<close>: each keyword is assigned in turn; an existing key keeps its
  place in the dict, a new one goes to the end.
\<close>

fun dict_update :: "profile_t \<Rightarrow> (string \<times> pval) list \<Rightarrow> profile_t" where
  "dict_update d [] = d"
| "dict_update d ((k, v) # kwargs) = dict_update (AList.update k v d) kwargs"

text \<open>\<^verbatim>\<open>os.path.join(a, b)\<close> for two components (posix).\<close>

definition os_path_join :: "string \<Rightarrow> string \<Rightarrow> string" where
  "os_path_join a b =
     (if b \<noteq> [] \<and> hd b = CHR ''/'' then b
      else if a = [] \<or> last a = CHR ''/'' then a @ b
      else a @ ''/'' @ b)"

text \<open>
  Iterating over an array yields its sub-arrays along the first axis; a 0-dimensional
  array cannot be iterated (\<^verbatim>\<open>TypeError\<close>).
\<close>

fun chunks :: "nat \<Rightarrow> nat \<Rightarrow> 'a list \<Rightarrow> 'a list list" where
  "chunks 0 k xs = []"
| "chunks (Suc n) k xs = take k xs # chunks n k (drop k xs)"

definition iter_array :: "'a ndarray \<Rightarrow> py_error + 'a ndarray list" where
  "iter_array a =
     (case shape a of
        [] \<Rightarrow> Inl (TypeError ''iteration over a 0-d array'')
      | n # s \<Rightarrow> Inr (map (NDArray s) (chunks n (prod_list s) (data a))))"

text \<open>
  \<^verbatim>\<open>for i, band in enumerate(bands['rgb']): dst.write_band(i + 1, band)\<close> on the file at
  \<open>path\<close>; the first write that raises ends the loop and leaves the earlier bands in
  the file.
\<close>

definition write_band :: "string \<Rightarrow> nat \<Rightarrow> 8 word ndarray \<Rightarrow> pystate \<Rightarrow> pystate" where
  "write_band path bidx band st =
     (case files st path of
        None \<Rightarrow> st
      | Some f \<Rightarrow> st\<lparr>files := (files st)(path \<mapsto> f\<lparr>file_bands := (file_bands f)(bidx \<mapsto> band)\<rparr>)\<rparr>)"

fun write_bands ::
  "rasterio_env \<Rightarrow> string \<Rightarrow> profile_t \<Rightarrow> nat \<Rightarrow> 8 word ndarray list \<Rightarrow> pystate
     \<Rightarrow> (py_error + unit) \<times> pystate" where
  "write_bands R path prof i [] st = (Inr (), st)"
| "write_bands R path prof i (band # rest) st =
     (case write_band_raises R prof (i + 1) band of
        Some e \<Rightarrow> (Inl e, st)
      | None \<Rightarrow> write_bands R path prof (i + 1) rest (write_band path (i + 1) band st))"

definition rgb_overrides :: "(string \<times> pval) list" where
  "rgb_overrides =
     [(''driver'', Str ''GTiff''), (''dtype'', Str ''uint8''), (''count'', Num 3),
      (''photometric'', Str ''RGB'')]"

text \<open>
  \<^verbatim>\<open>profile = bands['profile']\<close> binds the local to the object in the dict, and
  \<^verbatim>\<open>profile.update(...)\<close> changes that object. \<^verbatim>\<open>rasterio.open(rgb_path, 'w', **profile)\<close>
  receives the entries as keyword arguments and creates (or truncates) the file;
  \<^verbatim>\<open>bands['rgb']\<close> is looked up only after that.
\<close>

definition write_rgb_image ::
  "rasterio_env \<Rightarrow> pystate \<Rightarrow> bands \<Rightarrow> string \<Rightarrow> (py_error + unit) \<times> pystate" where
  "write_rgb_image R st bs data_path =
     (case profile bs of
        None \<Rightarrow> (Inl (KeyError ''profile''), st)
      | Some p \<Rightarrow>
          let st1 = st\<lparr>heap := (heap st)(p := dict_update (heap st p) rgb_overrides)\<rparr>;
              rgb_path = os_path_join data_path ''rgb.tif''
          in (case open_raises R rgb_path (heap st1 p) of
                Some e \<Rightarrow> (Inl e, st1)
              | None \<Rightarrow>
                  let st2 = st1\<lparr>files := (files st1)(rgb_path \<mapsto>
                              \<lparr>meta = heap st1 p, file_bands = Map.empty\<rparr>)\<rparr>
                  in (case rgb bs of
                        None \<Rightarrow> (Inl (KeyError ''rgb''), st2)
                      | Some img \<Rightarrow>
                          (case iter_array img of
                             Inl e \<Rightarrow> (Inl e, st2)
                           | Inr bands_of_image \<Rightarrow>
                               write_bands R rgb_path (heap st1 p) 0 bands_of_image st2))))"

section \<open>A reference instance of the array library\<close>

text \<open>
  numpy's default percentile: with the sample sorted, the percentile \<open>q\<close> sits at the
  virtual index \<open>q / 100 * (n - 1)\<close> and is interpolated linearly between its two
  neighbours. Arithmetic is exact here; numpy rounds to doubles.
\<close>

definition np_percentile :: "real list \<Rightarrow> real \<Rightarrow> real" where
  "np_percentile xs q =
     (let s = sort xs;
          n = length s;
          v = q / 100 * real (n - 1);
          lo = nat \<lfloor>v\<rfloor>;
          hi = min (lo + 1) (n - 1);
          t = v - real lo
      in s ! lo + t * (s ! hi - s ! lo))"

text \<open>
  Modelled from the spec: \<^verbatim>\<open>skimage.exposure.rescale_intensity\<close> is not in the repository.
  The spec's step 3 of percentile-rescale: rescale linearly so that the low cut point maps
  to 0 and the high cut point to 255, values outside the cut points clipped to the
  respective bound, the result cast to an integer type. When the cut points coincide or
  are NaN the quotient is not a number and the library's cast decides the pixel; that
  value is the parameter \<open>nan_px\<close>.
\<close>

definition clip :: "real \<Rightarrow> real \<Rightarrow> real \<Rightarrow> real" where
  "clip x lo hi = min (max x lo) hi"

definition rescale_px :: "real \<Rightarrow> real \<Rightarrow> int \<Rightarrow> int" where
  "rescale_px lo hi x = trunc ((clip (of_int x) lo hi - lo) / (hi - lo) * 255)"

fun linear_rescale :: "int \<Rightarrow> int ndarray \<Rightarrow> float64 \<times> float64 \<Rightarrow> py_error + int ndarray" where
  "linear_rescale nan_px b (Finite lo, Finite hi) =
     (if lo = hi then Inr (NDArray (shape b) (map (\<lambda>x. nan_px) (data b)))
      else Inr (NDArray (shape b) (map (rescale_px lo hi) (data b))))"
| "linear_rescale nan_px b (vmin, vmax) = Inr (NDArray (shape b) (map (\<lambda>x. nan_px) (data b)))"

text \<open>
  Contrast-limited adaptive equalisation is the library's own algorithm. The reference
  instance puts the plain (global) histogram equalisation in its place, which has the
  same interface: each pixel maps to the fraction of pixels not above it, a value in
  [0, 1]. It serves only to instantiate the parameter.
\<close>

definition global_equalize :: "int ndarray \<Rightarrow> real \<Rightarrow> py_error + real ndarray" where
  "global_equalize b clip_limit =
     Inr (NDArray (shape b)
            (map (\<lambda>x. real (length (filter (\<lambda>y. y \<le> x) (data b))) / real (length (data b)))
               (data b)))"

text \<open>
  The product of the reference instance is the exact one. It is the double product
  wherever the exact product is a double, as for the halves and quarters of the examples.
\<close>

definition reference_lib :: "int \<Rightarrow> numlib" where
  "reference_lib nan_px =
     \<lparr>percentile_of = np_percentile,
      rescale_intensity = linear_rescale nan_px,
      equalize_adapthist = global_equalize,
      float_mul = (\<lambda>a b. a * b)\<rparr>"

text \<open>
  Later releases of scikit-image do not divide when the two ends of the input range
  coincide: \<^verbatim>\<open>rescale_intensity\<close> then returns the image, clipped to the input range and
  to the output range [0, 255], cast to the output type. The instance below differs from
  the reference instance in this rule alone.
\<close>

fun clipping_rescale :: "int ndarray \<Rightarrow> float64 \<times> float64 \<Rightarrow> py_error + int ndarray" where
  "clipping_rescale b (Finite lo, Finite hi) =
     (if lo = hi
      then Inr (NDArray (shape b) (map (\<lambda>x. trunc (clip (clip (of_int x) lo hi) 0 255)) (data b)))
      else Inr (NDArray (shape b) (map (rescale_px lo hi) (data b))))"
| "clipping_rescale b (vmin, vmax) = Inr (NDArray (shape b) (map (\<lambda>x. 0) (data b)))"

definition clipping_lib :: numlib where
  "clipping_lib =
     \<lparr>percentile_of = np_percentile,
      rescale_intensity = clipping_rescale,
      equalize_adapthist = global_equalize,
      float_mul = (\<lambda>a b. a * b)\<rparr>"

text \<open>A library whose array kernels always raise, and a rasterio that never does.\<close>

definition raising_lib :: numlib where
  "raising_lib =
     \<lparr>percentile_of = (\<lambda>xs q. 0),
      rescale_intensity = (\<lambda>b r. Inl (ValueError ''rescale_intensity'')),
      equalize_adapthist = (\<lambda>b c. Inl (ValueError ''equalize_adapthist'')),
      float_mul = (\<lambda>a b. 0)\<rparr>"

definition rasterio_ok :: rasterio_env where
  "rasterio_ok = \<lparr>open_raises = (\<lambda>path prof. None), write_band_raises = (\<lambda>prof i band. None)\<rparr>"

section \<open>Example scenes\<close>

text \<open>The band of the spec's scenario, and scenes built from it.\<close>

definition band_2x2 :: "int ndarray" where
  "band_2x2 = NDArray [2, 2] [0, 0, 100, 200]"

definition scene_2x2 :: bands where
  "scene_2x2 =
     \<lparr>arrays = [''red'' \<mapsto> band_2x2, ''green'' \<mapsto> band_2x2, ''blue'' \<mapsto> band_2x2],
      profile = Some 0, rgb = None\<rparr>"

definition scene_no_red :: bands where
  "scene_no_red =
     \<lparr>arrays = [''green'' \<mapsto> band_2x2, ''blue'' \<mapsto> band_2x2], profile = Some 0, rgb = None\<rparr>"

text \<open>A store with one profile object, as \<^verbatim>\<open>get_bands\<close> leaves it, and a finished scene.\<close>

definition landsat_profile :: profile_t where
  "landsat_profile =
     [(''driver'', Str ''GTiff''), (''dtype'', Str ''uint16''), (''nodata'', Opaque ''None''),
      (''width'', Num 2), (''height'', Num 2), (''count'', Num 1),
      (''crs'', Opaque ''EPSG:32618''), (''transform'', Opaque ''Affine(30, 0, 0, 0, -30, 0)'')]"

definition store0 :: pystate where
  "store0 = \<lparr>heap = (\<lambda>a. [])(0 := landsat_profile), files = Map.empty\<rparr>"

definition scene_rgb :: bands where
  "scene_rgb =
     scene_2x2\<lparr>rgb := Some (NDArray [3, 2, 2] [0, 0, 131, 255, 0, 0, 131, 255, 0, 0, 131, 255])\<rparr>"

text \<open>
  A scene with a quality band: the last red pixel is a fill pixel (\<open>qa = 1\<close>) holding the
  sentinel 65535; the \<open>qa\<close> value 2 marks nothing.
\<close>

definition scene_masked :: bands where
  "scene_masked =
     \<lparr>arrays = [''red'' \<mapsto> NDArray [2, 2] [10, 20, 30, 65535],
                ''green'' \<mapsto> band_2x2, ''blue'' \<mapsto> band_2x2,
                ''qa'' \<mapsto> NDArray [2, 2] [0, 2, 0, 1]],
      profile = Some 0, rgb = None\<rparr>"

text \<open>Two scenes whose bands do not agree in shape, in different ways.\<close>

definition scene_mismatch_a :: bands where
  "scene_mismatch_a =
     \<lparr>arrays = [''red'' \<mapsto> NDArray [1, 2] [0, 200], ''green'' \<mapsto> band_2x2, ''blue'' \<mapsto> band_2x2],
      profile = Some 0, rgb = None\<rparr>"

definition scene_mismatch_b :: bands where
  "scene_mismatch_b =
     \<lparr>arrays = [''red'' \<mapsto> band_2x2, ''green'' \<mapsto> band_2x2,
                ''blue'' \<mapsto> NDArray [3, 1] [0, 100, 200]],
      profile = Some 0, rgb = None\<rparr>"

text \<open>A scene whose red band is constant.\<close>

definition band_const :: "int ndarray" where
  "band_const = NDArray [2, 2] [100, 100, 100, 100]"

definition scene_const :: bands where
  "scene_const =
     \<lparr>arrays = [''red'' \<mapsto> band_const, ''green'' \<mapsto> band_2x2, ''blue'' \<mapsto> band_2x2],
      profile = Some 0, rgb = None\<rparr>"

section \<open>Contracts of the array kernels and the spec's wording\<close>

text \<open>
  What the properties below require of the library: given a non-empty array (one whose
  buffer has the size its shape tells), the array kernels return an array of the shape
  and size of their input. Nothing is required on an empty array.
\<close>

definition kernels_preserve_shape :: "numlib \<Rightarrow> bool" where
  "kernels_preserve_shape L =
     ((\<forall>b r. data b \<noteq> [] \<longrightarrow> length (data b) = prod_list (shape b) \<longrightarrow>
          (\<exists>b'. rescale_intensity L b r = Inr b' \<and> shape b' = shape b \<and>
                length (data b') = length (data b))) \<and>
      (\<forall>b c. data b \<noteq> [] \<longrightarrow> length (data b) = prod_list (shape b) \<longrightarrow>
          (\<exists>b'. equalize_adapthist L b c = Inr b' \<and> shape b' = shape b \<and>
                length (data b') = length (data b))))"

text \<open>
  Given an input range whose two ends coincide, the rescale of a non-empty array does
  not raise and returns an array of one single value. (The division 0/0 of the earlier
  releases yields NaN in every pixel, cast to one value; the later releases clip every
  pixel to the one end.)
\<close>

definition degenerate_range_constant :: "numlib \<Rightarrow> bool" where
  "degenerate_range_constant L =
     (\<forall>b v. data b \<noteq> [] \<longrightarrow>
        (\<exists>k. rescale_intensity L b (Finite v, Finite v) =
               Inr (NDArray (shape b) (replicate (length (data b)) k))))"

text \<open>
  The adaptive equalisation returns values in [0, 1], and the rounded product of such a
  value with 255 lies in [0, 255] (rounding is monotone, and 0 and 255 are doubles).
\<close>

definition equalized_in_unit_range :: "numlib \<Rightarrow> bool" where
  "equalized_in_unit_range L =
     ((\<forall>b c eq. equalize_adapthist L b c = Inr eq \<longrightarrow> (\<forall>r \<in> set (data eq). 0 \<le> r \<and> r \<le> 1)) \<and>
      (\<forall>r. 0 \<le> r \<longrightarrow> r \<le> 1 \<longrightarrow> 0 \<le> float_mul L r 255 \<and> float_mul L r 255 \<le> 255))"

text \<open>A percentile of a sample lies between its least and its greatest element.\<close>

definition percentile_within :: "numlib \<Rightarrow> bool" where
  "percentile_within L =
     (\<forall>xs q. xs \<noteq> [] \<longrightarrow> valid_q q \<longrightarrow>
        Min (set xs) \<le> percentile_of L xs q \<and> percentile_of L xs q \<le> Max (set xs))"

text \<open>
  With a proper input range \<open>lo < hi\<close> and the output range of \<^verbatim>\<open>uint8\<close>, the rescaled
  pixels lie in [0, 255], a pixel at or below \<open>lo\<close> becomes 0 and one at or above \<open>hi\<close>
  becomes 255.
\<close>

definition rescale_to_bytes :: "numlib \<Rightarrow> bool" where
  "rescale_to_bytes L =
     (\<forall>b lo hi. lo < hi \<longrightarrow>
        (\<exists>b'. rescale_intensity L b (Finite lo, Finite hi) = Inr b' \<and> shape b' = shape b \<and>
              length (data b') = length (data b) \<and>
              (\<forall>i<length (data b).
                 0 \<le> data b' ! i \<and> data b' ! i \<le> 255 \<and>
                 (of_int (data b ! i) \<le> lo \<longrightarrow> data b' ! i = 0) \<and>
                 (hi \<le> of_int (data b ! i) \<longrightarrow> data b' ! i = 255))))"

text \<open>
  The spec's words for the cut points of percentile-rescale: the percentiles
  \<open>percentile\<close> and \<open>100 - percentile\<close> of the unmasked pixels, where a pixel is masked
  when its quality value is the sentinel 1.
\<close>

definition unmasked_pixels :: "int ndarray \<Rightarrow> int ndarray \<Rightarrow> real list" where
  "unmasked_pixels qa band =
     map (\<lambda>(q, x). of_int x) (filter (\<lambda>(q, x). q \<noteq> 1) (zip (data qa) (data band)))"

definition all_pixels :: "int ndarray \<Rightarrow> real list" where
  "all_pixels band = map of_int (data band)"

text \<open>The pixels that enter the percentiles: the unmasked ones, or all without a quality band.\<close>

definition sample_pixels :: "bands \<Rightarrow> int ndarray \<Rightarrow> real list" where
  "sample_pixels bs band =
     (case arrays bs ''qa'' of
        None \<Rightarrow> all_pixels band
      | Some qa \<Rightarrow> unmasked_pixels qa band)"

definition cut_points :: "numlib \<Rightarrow> real list \<Rightarrow> real \<Rightarrow> float64 \<times> float64" where
  "cut_points L xs p =
     (case xs of
        [] \<Rightarrow> (NaN, NaN)
      | x # xs' \<Rightarrow> (Finite (percentile_of L xs p), Finite (percentile_of L xs (100 - p))))"

section \<open>Unknown method\<close>

lemma modify_band_unknown:
  "method \<noteq> ''rescaling'' \<Longrightarrow> method \<noteq> ''clahe'' \<Longrightarrow>
   modify_band L bs method p c band = Inl (UnboundLocalError ''modified_band'')"
  by (simp add: modify_band_def)

text \<open>
  Claim C1, as the code has it. \<^verbatim>\<open>create_rgb_stack\<close> does not validate \<^verbatim>\<open>method\<close>. With a
  method other than \<^verbatim>\<open>'rescaling'\<close> and \<^verbatim>\<open>'clahe'\<close> the call still never returns a stack,
  and it fails before any array kernel runs (the outcome is the same for every library,
  also one whose kernels raise): the three band lookups come first, so a missing band
  is reported as \<^verbatim>\<open>KeyError\<close>; otherwise the first loop iteration raises
  \<^verbatim>\<open>UnboundLocalError\<close> for the local \<^verbatim>\<open>modified_band\<close>.
\<close>

theorem unknown_method_fails_before_any_kernel:
  assumes "method \<noteq> ''rescaling''" and "method \<noteq> ''clahe''"
  shows "create_rgb_stack L bs method p c =
           (if arrays bs ''red'' = None then Inl (KeyError ''red'')
            else if arrays bs ''green'' = None then Inl (KeyError ''green'')
            else if arrays bs ''blue'' = None then Inl (KeyError ''blue'')
            else Inl (UnboundLocalError ''modified_band''))"
  using assms
  by (auto simp: create_rgb_stack_def getitem_def modify_band_unknown split: option.splits)

theorem unknown_method_fails_witness:
  "''bogus'' \<noteq> ''rescaling'' \<and> ''bogus'' \<noteq> ''clahe'' \<and>
   create_rgb_stack raising_lib scene_2x2 ''bogus'' 2 (3 / 100) =
     Inl (UnboundLocalError ''modified_band'')"
  using unknown_method_fails_before_any_kernel [of "''bogus''" raising_lib scene_2x2 2 "3 / 100"]
  by (simp add: scene_2x2_def)

text \<open>
  The claim as stated asks for a configuration error raised at call entry. With the
  red band missing, the unknown method \<^verbatim>\<open>'bogus'\<close> is answered by the same
  \<^verbatim>\<open>KeyError('red')\<close> as the valid method \<^verbatim>\<open>'rescaling'\<close>; with all bands present the error
  is the \<^verbatim>\<open>UnboundLocalError\<close> of the loop body.
\<close>

theorem unknown_method_counterexample:
  "create_rgb_stack (reference_lib 0) scene_no_red ''bogus'' 2 (3 / 100) = Inl (KeyError ''red'') \<and>
   create_rgb_stack (reference_lib 0) scene_no_red ''rescaling'' 2 (3 / 100) = Inl (KeyError ''red'') \<and>
   create_rgb_stack (reference_lib 0) scene_2x2 ''bogus'' 2 (3 / 100) =
     Inl (UnboundLocalError ''modified_band'')"
  by (simp add: create_rgb_stack_def getitem_def scene_no_red_def scene_2x2_def modify_band_def)

section \<open>The profile written by write_rgb_image\<close>

lemma heap_write_band: "heap (write_band path i b st) = heap st"
  by (simp add: write_band_def split: option.splits)

lemma heap_write_bands: "heap (snd (write_bands R path prof i bands_of_image st)) = heap st"
  by (induction bands_of_image arbitrary: i st) (auto simp: heap_write_band split: option.splits)

lemma meta_write_band:
  "files st path = Some f \<Longrightarrow>
   \<exists>f'. files (write_band path i b st) path = Some f' \<and> meta f' = meta f"
  by (simp add: write_band_def)

lemma meta_write_bands:
  "files st path = Some f \<Longrightarrow>
   \<exists>f'. files (snd (write_bands R path prof i bands_of_image st)) path = Some f' \<and> meta f' = meta f"
proof (induction bands_of_image arbitrary: i st f)
  case Nil
  then show ?case by simp
next
  case (Cons b rest)
  show ?case
  proof (cases "write_band_raises R prof (i + 1) b")
    case None
    from meta_write_band [OF Cons.prems, of "i + 1" b]
    obtain f1 where f1: "files (write_band path (i + 1) b st) path = Some f1" "meta f1 = meta f"
      by blast
    from Cons.IH [OF f1(1), of "i + 1"] f1(2) None show ?thesis by simp
  next
    case (Some e)
    with Cons.prems show ?thesis by simp
  qed
qed

lemma map_of_rgb_overrides:
  "map_of (dict_update d rgb_overrides) =
     (map_of d)(''driver'' \<mapsto> Str ''GTiff'', ''dtype'' \<mapsto> Str ''uint8'', ''count'' \<mapsto> Num 3,
                ''photometric'' \<mapsto> Str ''RGB'')"
  by (simp add: rgb_overrides_def update_conv')

lemma heap_write_rgb_image:
  "profile bs = Some a \<Longrightarrow>
   heap (snd (write_rgb_image R st bs dp)) = (heap st)(a := dict_update (heap st a) rgb_overrides)"
  by (simp add: write_rgb_image_def Let_def heap_write_bands split: option.splits sum.splits)

lemma file_write_rgb_image:
  assumes "profile bs = Some a" and "fst (write_rgb_image R st bs dp) = Inr ()"
  shows "\<exists>f. files (snd (write_rgb_image R st bs dp)) (os_path_join dp ''rgb.tif'') = Some f \<and>
             meta f = dict_update (heap st a) rgb_overrides"
  using assms
  apply (simp add: write_rgb_image_def Let_def split: option.splits sum.splits)
  apply (rule meta_write_bands [where f = "\<lparr>meta = dict_update (heap st a) rgb_overrides, file_bands = Map.empty\<rparr>", simplified])
  apply simp
  done

lemma write_scene_rgb_succeeds:
  "fst (write_rgb_image rasterio_ok store0 scene_rgb ''data'') = Inr () \<and>
   os_path_join ''data'' ''rgb.tif'' = ''data/rgb.tif''"
  by code_simp

text \<open>
  Claim C2, as the code has it. \<^verbatim>\<open>write_rgb_image\<close> does not clone the profile: it
  overrides the four entries on the object stored under \<^verbatim>\<open>bands['profile']\<close> itself.
  After the call (whether the write succeeded or raised later) that object has driver
  \<^verbatim>\<open>'GTiff'\<close>, dtype \<^verbatim>\<open>'uint8'\<close>, count 3 and photometric \<^verbatim>\<open>'RGB'\<close> and every other entry as
  before; no other object of the store changes; and on success the file
  \<^verbatim>\<open><data_path>/rgb.tif\<close> carries exactly these entries as its metadata.
\<close>

theorem write_rgb_image_overrides_profile_in_place:
  assumes "profile bs = Some a"
  shows "heap (snd (write_rgb_image R st bs dp)) a = dict_update (heap st a) rgb_overrides \<and>
         map_of (heap (snd (write_rgb_image R st bs dp)) a) =
           (map_of (heap st a))(''driver'' \<mapsto> Str ''GTiff'', ''dtype'' \<mapsto> Str ''uint8'',
              ''count'' \<mapsto> Num 3, ''photometric'' \<mapsto> Str ''RGB'') \<and>
         (\<forall>a'. a' \<noteq> a \<longrightarrow> heap (snd (write_rgb_image R st bs dp)) a' = heap st a') \<and>
         (fst (write_rgb_image R st bs dp) = Inr () \<longrightarrow>
            (\<exists>f. files (snd (write_rgb_image R st bs dp)) (os_path_join dp ''rgb.tif'') = Some f \<and>
                 meta f = heap (snd (write_rgb_image R st bs dp)) a))"
  using file_write_rgb_image [OF assms, of R st dp]
  by (simp add: heap_write_rgb_image [OF assms] map_of_rgb_overrides)

theorem write_rgb_image_witness:
  "profile scene_rgb = Some 0 \<and>
   fst (write_rgb_image rasterio_ok store0 scene_rgb ''data'') = Inr () \<and>
   heap (snd (write_rgb_image rasterio_ok store0 scene_rgb ''data'')) 0 =
     [(''driver'', Str ''GTiff''), (''dtype'', Str ''uint8''), (''nodata'', Opaque ''None''),
      (''width'', Num 2), (''height'', Num 2), (''count'', Num 3),
      (''crs'', Opaque ''EPSG:32618''), (''transform'', Opaque ''Affine(30, 0, 0, 0, -30, 0)''),
      (''photometric'', Str ''RGB'')] \<and>
   map_option meta (files (snd (write_rgb_image rasterio_ok store0 scene_rgb ''data'')) ''data/rgb.tif'') =
     Some [(''driver'', Str ''GTiff''), (''dtype'', Str ''uint8''), (''nodata'', Opaque ''None''),
      (''width'', Num 2), (''height'', Num 2), (''count'', Num 3),
      (''crs'', Opaque ''EPSG:32618''), (''transform'', Opaque ''Affine(30, 0, 0, 0, -30, 0)''),
      (''photometric'', Str ''RGB'')]"
  using write_rgb_image_overrides_profile_in_place [of scene_rgb 0 rasterio_ok store0 "''data''"]
    write_scene_rgb_succeeds
  by (auto simp: scene_rgb_def scene_2x2_def store0_def landsat_profile_def rgb_overrides_def)

text \<open>
  The claim as stated has the caller's profile unchanged by the write. After writing the
  example scene, the profile object the caller holds at address 0 is no longer the one
  that was read (its dtype was \<^verbatim>\<open>'uint16'\<close> and its count 1).
\<close>

theorem write_rgb_image_counterexample:
  "heap (snd (write_rgb_image rasterio_ok store0 scene_rgb ''data'')) 0 \<noteq> heap store0 0"
  by (simp add: write_rgb_image_def Let_def scene_rgb_def scene_2x2_def store0_def
      landsat_profile_def rgb_overrides_def rasterio_ok_def heap_write_bands
      split: sum.splits)

section \<open>The rescaling branch: fill mask and cut points\<close>

lemma valid_q_complement: "valid_q p \<Longrightarrow> valid_q (100 - p)"
  by (simp add: valid_q_def)

lemma finite_values_filled:
  "finite_values (map (\<lambda>(masked, x). if masked then NaN else x)
       (zip (map (\<lambda>q. q = 1) qs) (map (\<lambda>x. Finite (of_int x)) xs))) =
   map (\<lambda>(q, x). of_int x) (filter (\<lambda>(q, x). q \<noteq> (1::int)) (zip qs (xs :: int list)))"
proof (induction qs arbitrary: xs)
  case Nil
  then show ?case by simp
next
  case (Cons q qs)
  then show ?case by (cases xs) auto
qed

lemma finite_values_astype_float:
  "finite_values (map (\<lambda>x. Finite (of_int x)) xs) = map of_int xs"
  by (induction xs) auto

lemma nanpercentile_cut_points:
  "valid_q p \<Longrightarrow> data a \<noteq> [] \<Longrightarrow> finite_values (data a) = xs \<Longrightarrow>
   \<exists>v. nanpercentile L a (p, 100 - p) = Inr v \<and> unpack2 v = Inr (cut_points L xs p)"
  by (auto simp: nanpercentile_def cut_points_def valid_q_complement split: list.splits)

lemma nanpercentile_size_0:
  "valid_q p \<Longrightarrow> data a = [] \<Longrightarrow> nanpercentile L a (p, 100 - p) = Inr (Scalar NaN)"
  by (simp add: nanpercentile_def valid_q_complement)

lemma masked_band_with_qa:
  "arrays bs ''qa'' = Some qa \<Longrightarrow> shape qa = shape band \<Longrightarrow>
   masked_band bs band =
     Inr (NDArray (shape band)
            (map (\<lambda>(masked, x). if masked then NaN else x)
               (zip (map (\<lambda>q. q = 1) (data qa)) (map (\<lambda>x. Finite (of_int x)) (data band)))))"
  by (simp add: masked_band_def getitem_def masked_where_def fill_mask_def eq_scalar_def
      filled_def ma_astype_float_def astype_float_def)

lemma masked_band_without_qa:
  "arrays bs ''qa'' = None \<Longrightarrow> masked_band bs band = Inr (astype_float band)"
  by (simp add: masked_band_def getitem_def)

lemma modify_band_without_qa:
  assumes "arrays bs ''qa'' = None" and "valid_q p" and "data band \<noteq> []"
  shows "modify_band L bs ''rescaling'' p c band =
           (case rescale_intensity L band (cut_points L (all_pixels band) p) of
              Inl e \<Rightarrow> Inl e
            | Inr modified_band \<Rightarrow> Inr (astype_uint8 modified_band))"
proof -
  have "finite_values (data (astype_float band)) = all_pixels band"
    by (simp add: astype_float_def finite_values_astype_float all_pixels_def)
  moreover have "data (astype_float band) \<noteq> []"
    using assms(3) by (simp add: astype_float_def)
  ultimately obtain v where "nanpercentile L (astype_float band) (p, 100 - p) = Inr v"
    and "unpack2 v = Inr (cut_points L (all_pixels band) p)"
    using nanpercentile_cut_points [OF assms(2), of "astype_float band" "all_pixels band" L]
    by blast
  then show ?thesis
    by (simp add: modify_band_def masked_band_without_qa [OF assms(1)] split: prod.splits)
qed

lemma modify_band_size_0:
  assumes "arrays bs ''qa'' = None" and "valid_q p" and "data band = []"
  shows "modify_band L bs ''rescaling'' p c band =
           Inl (TypeError ''cannot unpack non-iterable numpy.float64 object'')"
proof -
  have "data (astype_float band) = []"
    using assms(3) by (simp add: astype_float_def)
  from nanpercentile_size_0 [OF assms(2) this, of L] show ?thesis
    by (simp add: modify_band_def masked_band_without_qa [OF assms(1)])
qed

lemma working_copy_with_qa:
  assumes "arrays bs ''qa'' = Some qa" and "shape qa = shape band"
    and "length (data qa) = length (data band)" and "data band \<noteq> []" and "valid_q p"
  shows "\<exists>mb v. masked_band bs band = Inr mb \<and> finite_values (data mb) = unmasked_pixels qa band \<and>
               nanpercentile L mb (p, 100 - p) = Inr v \<and>
               unpack2 v = Inr (cut_points L (unmasked_pixels qa band) p)"
proof -
  define mb where "mb = NDArray (shape band)
            (map (\<lambda>(masked, x). if masked then NaN else x)
               (zip (map (\<lambda>q. q = 1) (data qa)) (map (\<lambda>x. Finite (of_int x)) (data band))))"
  have fv: "finite_values (data mb) = unmasked_pixels qa band"
    by (simp add: mb_def finite_values_filled unmasked_pixels_def)
  have "length (data mb) = length (data band)"
    using assms(3) by (simp add: mb_def)
  then have "data mb \<noteq> []" using assms(4) by auto
  from nanpercentile_cut_points [OF assms(5) this fv, of L]
    masked_band_with_qa [OF assms(1,2)] fv
  show ?thesis unfolding mb_def by blast
qed

lemma modify_band_with_qa:
  assumes "arrays bs ''qa'' = Some qa" and "shape qa = shape band"
    and "length (data qa) = length (data band)" and "data band \<noteq> []" and "valid_q p"
  shows "modify_band L bs ''rescaling'' p c band =
           (case rescale_intensity L band (cut_points L (unmasked_pixels qa band) p) of
              Inl e \<Rightarrow> Inl e
            | Inr modified_band \<Rightarrow> Inr (astype_uint8 modified_band))"
proof -
  from working_copy_with_qa [OF assms, of L] obtain mb v where
    "masked_band bs band = Inr mb" "nanpercentile L mb (p, 100 - p) = Inr v"
    "unpack2 v = Inr (cut_points L (unmasked_pixels qa band) p)"
    by blast
  then show ?thesis
    by (simp add: modify_band_def split: prod.splits)
qed

lemma rescale_red_masked:
  "rescale_intensity (reference_lib 0) (NDArray [2, 2] [10, 20, 30, 65535])
     (cut_points (reference_lib 0)
        (unmasked_pixels (NDArray [2, 2] [0, 2, 0, 1]) (NDArray [2, 2] [10, 20, 30, 65535])) 2) =
   Inr (NDArray [2, 2] [0, 127, 255, 255])"
  by code_simp

text \<open>
  Claim C5. With a quality band of the shape and size of a non-empty band, the working
  copy of the rescaling branch is a float array whose entries other than NaN are exactly
  the unmasked pixels, and the two cut points (the percentiles \<open>percentile\<close> and
  \<open>100 - percentile\<close>) are taken from these alone: the percentile skips the NaN of the
  masked pixels. The rescale and the cast to \<^verbatim>\<open>uint8\<close> are then applied to the original
  band, all its pixels included, not to the masked copy.
\<close>

theorem rescaling_cut_points_from_unmasked_pixels:
  assumes "arrays bs ''qa'' = Some qa" and "shape qa = shape band"
    and "length (data qa) = length (data band)" and "data band \<noteq> []" and "valid_q p"
  shows "(\<exists>mb v. masked_band bs band = Inr mb \<and> finite_values (data mb) = unmasked_pixels qa band \<and>
               nanpercentile L mb (p, 100 - p) = Inr v \<and>
               unpack2 v = Inr (cut_points L (unmasked_pixels qa band) p)) \<and>
         modify_band L bs ''rescaling'' p c band =
           (case rescale_intensity L band (cut_points L (unmasked_pixels qa band) p) of
              Inl e \<Rightarrow> Inl e
            | Inr modified_band \<Rightarrow> Inr (astype_uint8 modified_band))"
  using working_copy_with_qa [OF assms, of L] modify_band_with_qa [OF assms, of L c]
  by blast

theorem rescaling_cut_points_witness:
  "arrays scene_masked ''qa'' = Some (NDArray [2, 2] [0, 2, 0, 1]) \<and> valid_q 2 \<and>
   data (NDArray [2, 2] [10, 20, 30, 65535 :: int]) \<noteq> [] \<and>
   unmasked_pixels (NDArray [2, 2] [0, 2, 0, 1]) (NDArray [2, 2] [10, 20, 30, 65535]) = [10, 20, 30] \<and>
   modify_band (reference_lib 0) scene_masked ''rescaling'' 2 (3 / 100)
     (NDArray [2, 2] [10, 20, 30, 65535]) = Inr (NDArray [2, 2] [0, 127, 255, 255])"
  using rescaling_cut_points_from_unmasked_pixels [of scene_masked "NDArray [2, 2] [0, 2, 0, 1]"
      "NDArray [2, 2] [10, 20, 30, 65535]" 2 "reference_lib 0" "3 / 100"]
    rescale_red_masked
  by (simp add: scene_masked_def valid_q_def unmasked_pixels_def astype_uint8_def)

text \<open>
  Claim C10. The fill mask is \<^verbatim>\<open>bands['qa'] == 1\<close>: with a quality band of the band's
  shape, a pixel of the working copy is NaN exactly when its quality value is 1, and the
  band's own value (as a float) for every other quality value. Without a \<^verbatim>\<open>'qa'\<close> key the
  \<^verbatim>\<open>KeyError\<close> is caught and the working copy is the band itself; for a non-empty band the
  cut points are then the percentiles of all pixels of the band. (A band of size 0 has
  no percentiles: numpy answers with a single NaN and the tuple assignment raises
  \<^verbatim>\<open>TypeError\<close>.)
\<close>

theorem fill_mask_is_qa_equal_1:
  "(arrays bs ''qa'' = None \<longrightarrow>
      masked_band bs band = Inr (astype_float band) \<and>
      (valid_q p \<longrightarrow> data band \<noteq> [] \<longrightarrow>
         modify_band L bs ''rescaling'' p c band =
           (case rescale_intensity L band (cut_points L (all_pixels band) p) of
              Inl e \<Rightarrow> Inl e
            | Inr modified_band \<Rightarrow> Inr (astype_uint8 modified_band))) \<and>
      (valid_q p \<longrightarrow> data band = [] \<longrightarrow>
         modify_band L bs ''rescaling'' p c band =
           Inl (TypeError ''cannot unpack non-iterable numpy.float64 object''))) \<and>
   (arrays bs ''qa'' = Some qa \<longrightarrow> shape qa = shape band \<longrightarrow>
      length (data qa) = length (data band) \<longrightarrow>
      data (fill_mask qa) = map (\<lambda>q. q = 1) (data qa) \<and>
      (\<exists>mb. masked_band bs band = Inr mb \<and> shape mb = shape band \<and>
            length (data mb) = length (data band) \<and>
            (\<forall>i<length (data band).
               data mb ! i = (if data qa ! i = 1 then NaN else Finite (of_int (data band ! i))))))"
  by (auto simp: masked_band_without_qa modify_band_without_qa modify_band_size_0
      masked_band_with_qa fill_mask_def eq_scalar_def)

lemma modify_band_2x2:
  "modify_band (reference_lib 0) scene_2x2 ''rescaling'' 2 (3 / 100) band_2x2 =
     Inr (NDArray [2, 2] [0, 0, 131, 255])"
  by code_simp

theorem fill_mask_witness:
  "arrays scene_2x2 ''qa'' = None \<and> valid_q 2 \<and> data band_2x2 \<noteq> [] \<and>
   masked_band scene_2x2 band_2x2 = Inr (NDArray [2, 2] [Finite 0, Finite 0, Finite 100, Finite 200]) \<and>
   all_pixels band_2x2 = [0, 0, 100, 200] \<and>
   modify_band (reference_lib 0) scene_2x2 ''rescaling'' 2 (3 / 100) band_2x2 =
     Inr (NDArray [2, 2] [0, 0, 131, 255]) \<and>
   modify_band (reference_lib 0) scene_2x2 ''rescaling'' 2 (3 / 100) (NDArray [0, 0] []) =
     Inl (TypeError ''cannot unpack non-iterable numpy.float64 object'') \<and>
   arrays scene_masked ''qa'' = Some (NDArray [2, 2] [0, 2, 0, 1]) \<and>
   masked_band scene_masked (NDArray [2, 2] [10, 20, 30, 65535]) =
     Inr (NDArray [2, 2] [Finite 10, Finite 20, Finite 30, NaN])"
  using fill_mask_is_qa_equal_1 [of scene_2x2 band_2x2 2 "reference_lib 0" "3 / 100"
      "NDArray [2, 2] [0, 2, 0, 1]"]
    fill_mask_is_qa_equal_1 [of scene_2x2 "NDArray [0, 0] []" 2 "reference_lib 0" "3 / 100"
      "NDArray [2, 2] [0, 2, 0, 1]"]
    fill_mask_is_qa_equal_1 [of scene_masked "NDArray [2, 2] [10, 20, 30, 65535]" 2
      "reference_lib 0" "3 / 100" "NDArray [2, 2] [0, 2, 0, 1]"]
    modify_band_2x2
  by (simp add: scene_2x2_def scene_masked_def band_2x2_def masked_band_def getitem_def
      astype_float_def masked_where_def fill_mask_def eq_scalar_def filled_def ma_astype_float_def
      valid_q_def all_pixels_def)

lemma modify_band_rescaling_form:
  assumes "case arrays bs ''qa'' of None \<Rightarrow> True
           | Some qa \<Rightarrow> shape qa = shape band \<and> length (data qa) = length (data band)"
    and "valid_q p" and "data band \<noteq> []"
  shows "modify_band L bs ''rescaling'' p c band =
           (case rescale_intensity L band (cut_points L (sample_pixels bs band) p) of
              Inl e \<Rightarrow> Inl e
            | Inr modified_band \<Rightarrow> Inr (astype_uint8 modified_band))"
proof (cases "arrays bs ''qa''")
  case None
  from modify_band_without_qa [OF None assms(2,3)] None show ?thesis
    by (simp add: sample_pixels_def)
next
  case (Some qa)
  with assms(1) have "shape qa = shape band" "length (data qa) = length (data band)" by simp_all
  from modify_band_with_qa [OF Some this assms(3,2)] Some show ?thesis
    by (simp add: sample_pixels_def)
qed

section \<open>The clahe branch\<close>

lemma uint8_of_byte: "0 \<le> k \<Longrightarrow> k \<le> 255 \<Longrightarrow> int (unat (word_of_int k :: 8 word)) = k"
  by (simp add: uint_word_of_int_eq take_bit_int_eq_self)

lemma floor_byte:
  fixes x :: real
  assumes "0 \<le> x" and "x \<le> 255"
  shows "0 \<le> \<lfloor>x\<rfloor> \<and> \<lfloor>x\<rfloor> \<le> 255"
  using assms by (simp add: floor_le_iff)

lemma global_equalize_unit_range:
  assumes "global_equalize b c = Inr eq" and "r \<in> set (data eq)"
  shows "0 \<le> r \<and> r \<le> 1"
proof -
  from assms obtain x where x: "x \<in> set (data b)"
    and r: "r = real (length (filter (\<lambda>y. y \<le> x) (data b))) / real (length (data b))"
    by (auto simp: global_equalize_def)
  have "length (filter (\<lambda>y. y \<le> x) (data b)) \<le> length (data b)" by simp
  moreover have "0 < length (data b)" using x by (cases "data b") auto
  ultimately show ?thesis unfolding r by simp
qed

lemma reference_lib_unit_range: "equalized_in_unit_range (reference_lib nan_px)"
  unfolding equalized_in_unit_range_def
  using global_equalize_unit_range by (auto simp: reference_lib_def)

lemma equalize_2x2:
  "equalize_adapthist (reference_lib 0) band_2x2 (3 / 100) =
     Inr (NDArray [2, 2] [1 / 2, 1 / 2, 3 / 4, 1]) \<and>
   modify_band (reference_lib 0) scene_2x2 ''clahe'' 2 (3 / 100) band_2x2 =
     Inr (NDArray [2, 2] [127, 127, 191, 255])"
  by code_simp

text \<open>
  Claim C6. The clahe branch never reads \<^verbatim>\<open>bands['qa']\<close>: adding, replacing or removing
  the quality band leaves the result of \<^verbatim>\<open>create_rgb_stack\<close> as it is. Each output band is
  the library's adaptive equalisation of the whole band, every value multiplied by 255
  (the rounded double product) and cast to \<^verbatim>\<open>uint8\<close> by dropping the fraction towards
  zero. For a library whose equalised values lie in [0, 1], every output pixel is the
  integer part of that product, a value in [0, 255].
\<close>

theorem clahe_never_consults_qa:
  "create_rgb_stack L (bs\<lparr>arrays := (arrays bs)(''qa'' := q)\<rparr>) ''clahe'' p c =
     create_rgb_stack L bs ''clahe'' p c \<and>
   modify_band L bs ''clahe'' p c band =
     (case equalize_adapthist L band c of
        Inl e \<Rightarrow> Inl e
      | Inr eq \<Rightarrow>
          Inr (NDArray (shape eq)
                 (map (\<lambda>r. word_of_int (if 0 \<le> float_mul L r 255 then \<lfloor>float_mul L r 255\<rfloor>
                                         else \<lceil>float_mul L r 255\<rceil>))
                    (data eq)))) \<and>
   (equalized_in_unit_range L \<longrightarrow> equalize_adapthist L band c = Inr eq \<longrightarrow>
      (\<exists>out. modify_band L bs ''clahe'' p c band = Inr out \<and> shape out = shape eq \<and>
             length (data out) = length (data eq) \<and>
             (\<forall>i<length (data eq).
                0 \<le> data eq ! i \<and> data eq ! i \<le> 1 \<and>
                int (unat (data out ! i)) = \<lfloor>float_mul L (data eq ! i) 255\<rfloor> \<and>
                unat (data out ! i) \<le> 255)))"
proof (intro conjI impI)
  show "create_rgb_stack L (bs\<lparr>arrays := (arrays bs)(''qa'' := q)\<rparr>) ''clahe'' p c =
          create_rgb_stack L bs ''clahe'' p c"
    by (simp add: create_rgb_stack_def getitem_def modify_band_def split: sum.splits)
next
  show "modify_band L bs ''clahe'' p c band =
     (case equalize_adapthist L band c of
        Inl e \<Rightarrow> Inl e
      | Inr eq \<Rightarrow>
          Inr (NDArray (shape eq)
                 (map (\<lambda>r. word_of_int (if 0 \<le> float_mul L r 255 then \<lfloor>float_mul L r 255\<rfloor>
                                         else \<lceil>float_mul L r 255\<rceil>))
                    (data eq))))"
    by (simp add: modify_band_def float_astype_uint8_def times_scalar_def trunc_def o_def
        split: sum.splits)
next
  assume contract: "equalized_in_unit_range L" and eq: "equalize_adapthist L band c = Inr eq"
  define out where
    "out = NDArray (shape eq) (map (\<lambda>r. word_of_int (trunc (float_mul L r 255)) :: 8 word) (data eq))"
  have res: "modify_band L bs ''clahe'' p c band = Inr out"
    using eq by (simp add: modify_band_def float_astype_uint8_def times_scalar_def out_def o_def)
  have px: "0 \<le> data eq ! i \<and> data eq ! i \<le> 1 \<and>
            int (unat (data out ! i)) = \<lfloor>float_mul L (data eq ! i) 255\<rfloor> \<and>
            unat (data out ! i) \<le> 255" if i: "i < length (data eq)" for i
  proof -
    have mem: "data eq ! i \<in> set (data eq)" using i by simp
    with contract eq have r: "0 \<le> data eq ! i" "data eq ! i \<le> 1"
      unfolding equalized_in_unit_range_def by blast+
    with contract have x: "0 \<le> float_mul L (data eq ! i) 255" "float_mul L (data eq ! i) 255 \<le> 255"
      unfolding equalized_in_unit_range_def by blast+
    from floor_byte [OF x] have f: "0 \<le> \<lfloor>float_mul L (data eq ! i) 255\<rfloor>"
      "\<lfloor>float_mul L (data eq ! i) 255\<rfloor> \<le> 255" by simp_all
    have "data out ! i = word_of_int \<lfloor>float_mul L (data eq ! i) 255\<rfloor>"
      using i x(1) by (simp add: out_def trunc_def)
    with uint8_of_byte [OF f] r show ?thesis
      using unsigned_less [of "data out ! i", where 'a = nat] by simp
  qed
  have "shape out = shape eq" "length (data out) = length (data eq)"
    by (simp_all add: out_def)
  with res px show "\<exists>out. modify_band L bs ''clahe'' p c band = Inr out \<and> shape out = shape eq \<and>
             length (data out) = length (data eq) \<and>
             (\<forall>i<length (data eq).
                0 \<le> data eq ! i \<and> data eq ! i \<le> 1 \<and>
                int (unat (data out ! i)) = \<lfloor>float_mul L (data eq ! i) 255\<rfloor> \<and>
                unat (data out ! i) \<le> 255)"
    by blast
qed

theorem clahe_witness:
  "equalized_in_unit_range (reference_lib 0) \<and>
   equalize_adapthist (reference_lib 0) band_2x2 (3 / 100) =
     Inr (NDArray [2, 2] [1 / 2, 1 / 2, 3 / 4, 1]) \<and>
   float_mul (reference_lib 0) (1 / 2) 255 = 255 / 2 \<and>
   float_mul (reference_lib 0) (3 / 4) 255 = 765 / 4 \<and>
   modify_band (reference_lib 0) scene_2x2 ''clahe'' 2 (3 / 100) band_2x2 =
     Inr (NDArray [2, 2] [127, 127, 191, 255]) \<and>
   create_rgb_stack (reference_lib 0) (scene_2x2\<lparr>arrays := (arrays scene_2x2)(''qa'' := Some band_2x2)\<rparr>)
     ''clahe'' 2 (3 / 100) =
   create_rgb_stack (reference_lib 0) scene_2x2 ''clahe'' 2 (3 / 100)"
  using clahe_never_consults_qa [of "reference_lib 0" scene_2x2 "Some band_2x2" 2 "3 / 100" band_2x2
      "NDArray [2, 2] [1 / 2, 1 / 2, 3 / 4, 1]"]
    reference_lib_unit_range [of 0] equalize_2x2
  by (simp add: reference_lib_def)

section \<open>Stacking\<close>

lemma np_stack_three:
  "np_stack [a, b, c] =
     (if shape a = shape b \<and> shape b = shape c
      then Inr (NDArray (3 # shape a) (data a @ data b @ data c))
      else Inl (ValueError ''all input arrays must have the same shape''))"
  by (auto simp: np_stack_def)

lemma create_rgb_stack_three:
  assumes "arrays bs ''red'' = Some r" and "arrays bs ''green'' = Some g"
    and "arrays bs ''blue'' = Some b"
    and "modify_band L bs m p c r = Inr r'" and "modify_band L bs m p c g = Inr g'"
    and "modify_band L bs m p c b = Inr b'"
  shows "create_rgb_stack L bs m p c = np_stack [r', g', b']"
  using assms by (simp add: create_rgb_stack_def getitem_def)

lemma modify_band_mismatch_red:
  "modify_band (reference_lib 0) scene_mismatch_a ''rescaling'' 2 (3 / 100) (NDArray [1, 2] [0, 200]) =
     Inr (NDArray [1, 2] [0, 255])"
  by code_simp

lemma modify_band_mismatch_other:
  "modify_band (reference_lib 0) scene_mismatch_a ''rescaling'' 2 (3 / 100) band_2x2 =
     Inr (NDArray [2, 2] [0, 0, 131, 255])"
  by code_simp

text \<open>
  Claim C7, as the code has it. When the three normalised bands do not all have the same
  shape, \<^verbatim>\<open>np.stack\<close> raises and \<^verbatim>\<open>create_rgb_stack\<close> returns no stack. The error is
  numpy's \<^verbatim>\<open>ValueError\<close> with the fixed message \<^verbatim>\<open>all input arrays must have the same
  shape\<close>; it does not name the shapes. \<^verbatim>\<open>create_rgb_stack\<close> has no effect on any file: its
  only result is the returned array or the error.
\<close>

theorem stack_shape_mismatch_raises:
  assumes "arrays bs ''red'' = Some r" and "arrays bs ''green'' = Some g"
    and "arrays bs ''blue'' = Some b"
    and "modify_band L bs m p c r = Inr r'" and "modify_band L bs m p c g = Inr g'"
    and "modify_band L bs m p c b = Inr b'"
    and "shape r' \<noteq> shape g' \<or> shape r' \<noteq> shape b' \<or> shape g' \<noteq> shape b'"
  shows "np_stack [r', g', b'] = Inl (ValueError ''all input arrays must have the same shape'') \<and>
         create_rgb_stack L bs m p c =
           Inl (ValueError ''all input arrays must have the same shape'')"
  using assms(7) create_rgb_stack_three [OF assms(1-6)]
  by (auto simp: np_stack_three)

theorem stack_shape_mismatch_witness:
  "shape (NDArray [1, 2] [0, 255 :: 8 word]) \<noteq> shape (NDArray [2, 2] [0, 0, 131, 255 :: 8 word]) \<and>
   create_rgb_stack (reference_lib 0) scene_mismatch_a ''rescaling'' 2 (3 / 100) =
     Inl (ValueError ''all input arrays must have the same shape'')"
  using stack_shape_mismatch_raises [of scene_mismatch_a "NDArray [1, 2] [0, 200]" band_2x2 band_2x2
      "reference_lib 0" "''rescaling''" 2 "3 / 100",
      OF _ _ _ modify_band_mismatch_red modify_band_mismatch_other modify_band_mismatch_other]
  by (simp add: scene_mismatch_a_def)

text \<open>
  The claim as stated has the error report the offending shapes. A 1x2 red band against
  2x2 bands and a 3x1 blue band against 2x2 bands are answered by one and the same error
  value, the fixed message.
\<close>

theorem stack_shape_mismatch_counterexample:
  "create_rgb_stack (reference_lib 0) scene_mismatch_a ''rescaling'' 2 (3 / 100) =
     Inl (ValueError ''all input arrays must have the same shape'') \<and>
   create_rgb_stack (reference_lib 0) scene_mismatch_b ''rescaling'' 2 (3 / 100) =
     Inl (ValueError ''all input arrays must have the same shape'')"
  by code_simp

section \<open>Shape and range of the result\<close>

lemma modify_band_shape:
  assumes "kernels_preserve_shape L"
    and "case arrays bs ''qa'' of None \<Rightarrow> True
         | Some qa \<Rightarrow> shape qa = shape band \<and> length (data qa) = length (data band)"
    and "data band \<noteq> []" and "length (data band) = prod_list (shape band)"
    and "method = ''clahe'' \<or> (method = ''rescaling'' \<and> valid_q p)"
  shows "\<exists>out. modify_band L bs method p c band = Inr out \<and> shape out = shape band \<and>
               length (data out) = length (data band)"
proof (cases "method = ''clahe''")
  case True
  from assms(1,3,4) obtain eq where "equalize_adapthist L band c = Inr eq"
    and "shape eq = shape band" and "length (data eq) = length (data band)"
    unfolding kernels_preserve_shape_def by blast
  with True show ?thesis
    by (simp add: modify_band_def float_astype_uint8_def times_scalar_def)
next
  case False
  with assms(5) have m: "method = ''rescaling''" and q: "valid_q p" by auto
  from assms(1,3,4) obtain b' where
    "rescale_intensity L band (cut_points L (sample_pixels bs band) p) = Inr b'"
    and "shape b' = shape band" and "length (data b') = length (data band)"
    unfolding kernels_preserve_shape_def by blast
  with modify_band_rescaling_form [OF assms(2) q assms(3), of L c] m show ?thesis
    by (simp add: astype_uint8_def)
qed

lemma uint8_range: "unat (x :: 8 word) \<le> 255"
  using unsigned_less [of x, where 'a = nat] by simp

lemma reference_lib_preserves_shape: "kernels_preserve_shape (reference_lib nan_px)"
proof -
  have rescale: "\<exists>b'. linear_rescale nan_px b r = Inr b' \<and> shape b' = shape b \<and>
             length (data b') = length (data b)" for b r
    by (cases "(nan_px, b, r)" rule: linear_rescale.cases) auto
  show ?thesis
    unfolding kernels_preserve_shape_def
  proof (intro conjI allI impI)
    fix b r
    show "\<exists>b'. rescale_intensity (reference_lib nan_px) b r = Inr b' \<and> shape b' = shape b \<and>
               length (data b') = length (data b)"
      using rescale [of b r] by (simp add: reference_lib_def)
  next
    fix b c
    show "\<exists>b'. equalize_adapthist (reference_lib nan_px) b c = Inr b' \<and> shape b' = shape b \<and>
               length (data b') = length (data b)"
      by (simp add: reference_lib_def global_equalize_def)
  qed
qed

text \<open>
  Claim C4. Take a library whose array kernels, given a non-empty array, return an array
  of the shape of their input; bands red, green and blue of one shape H x W with at
  least one pixel (and a quality band, if any, of that shape); and either recognised
  method (with a percentile in [0, 100] for rescaling). Then each normalised band is a
  \<^verbatim>\<open>uint8\<close> array of shape H x W with all values in [0, 255], and \<^verbatim>\<open>create_rgb_stack\<close>
  returns the 3 x H x W \<^verbatim>\<open>uint8\<close> array made of the normalised red, green and blue bands in
  this order.
\<close>

theorem create_rgb_stack_shape_and_range:
  assumes "kernels_preserve_shape L"
    and "arrays bs ''red'' = Some r" and "arrays bs ''green'' = Some g"
    and "arrays bs ''blue'' = Some b"
    and "shape r = [h, w]" and "shape g = [h, w]" and "shape b = [h, w]"
    and "length (data r) = h * w" and "length (data g) = h * w" and "length (data b) = h * w"
    and "0 < h * w"
    and "case arrays bs ''qa'' of None \<Rightarrow> True
         | Some qa \<Rightarrow> shape qa = [h, w] \<and> length (data qa) = h * w"
    and "method = ''clahe'' \<or> (method = ''rescaling'' \<and> valid_q p)"
  shows "\<exists>r' g' b'.
           modify_band L bs method p c r = Inr r' \<and> modify_band L bs method p c g = Inr g' \<and>
           modify_band L bs method p c b = Inr b' \<and>
           shape r' = [h, w] \<and> shape g' = [h, w] \<and> shape b' = [h, w] \<and>
           length (data r') = h * w \<and> length (data g') = h * w \<and> length (data b') = h * w \<and>
           create_rgb_stack L bs method p c = Inr (NDArray [3, h, w] (data r' @ data g' @ data b')) \<and>
           (\<forall>x \<in> set (data r' @ data g' @ data b'). unat x \<le> 255)"
proof -
  have qa: "case arrays bs ''qa'' of None \<Rightarrow> True
            | Some qa \<Rightarrow> shape qa = shape band \<and> length (data qa) = length (data band)"
    if "shape band = [h, w]" "length (data band) = h * w" for band
    using assms(12) that by (simp split: option.splits)
  have ne: "data band \<noteq> []" "length (data band) = prod_list (shape band)"
    if "shape band = [h, w]" "length (data band) = h * w" for band
    using assms(11) that by auto
  from modify_band_shape [OF assms(1) qa [OF assms(5,8)] ne [OF assms(5,8)] assms(13), of c]
  obtain r' where r': "modify_band L bs method p c r = Inr r'" "shape r' = shape r"
    "length (data r') = length (data r)" by blast
  from modify_band_shape [OF assms(1) qa [OF assms(6,9)] ne [OF assms(6,9)] assms(13), of c]
  obtain g' where g': "modify_band L bs method p c g = Inr g'" "shape g' = shape g"
    "length (data g') = length (data g)" by blast
  from modify_band_shape [OF assms(1) qa [OF assms(7,10)] ne [OF assms(7,10)] assms(13), of c]
  obtain b' where b': "modify_band L bs method p c b = Inr b'" "shape b' = shape b"
    "length (data b') = length (data b)" by blast
  have "create_rgb_stack L bs method p c = Inr (NDArray [3, h, w] (data r' @ data g' @ data b'))"
    using create_rgb_stack_three [OF assms(2-4) r'(1) g'(1) b'(1)] r'(2) g'(2) b'(2) assms(5-7)
    by (simp add: np_stack_three)
  with r' g' b' assms(5-10) show ?thesis
    by (auto simp: uint8_range)
qed

theorem create_rgb_stack_shape_witness:
  "kernels_preserve_shape (reference_lib 0) \<and>
   arrays scene_2x2 ''red'' = Some band_2x2 \<and> arrays scene_2x2 ''green'' = Some band_2x2 \<and>
   arrays scene_2x2 ''blue'' = Some band_2x2 \<and> arrays scene_2x2 ''qa'' = None \<and>
   shape band_2x2 = [2, 2] \<and> length (data band_2x2) = 2 * 2 \<and> (0 :: nat) < 2 * 2 \<and> valid_q 2 \<and>
   create_rgb_stack (reference_lib 0) scene_2x2 ''rescaling'' 2 (3 / 100) =
     Inr (NDArray [3, 2, 2] [0, 0, 131, 255, 0, 0, 131, 255, 0, 0, 131, 255])"
  using create_rgb_stack_shape_and_range [OF reference_lib_preserves_shape,
      of scene_2x2 band_2x2 band_2x2 band_2x2 2 2 "''rescaling''" 2 0 "3 / 100"]
    reference_lib_preserves_shape [of 0] modify_band_2x2
  by (simp add: scene_2x2_def band_2x2_def valid_q_def)

section \<open>The reference library meets the contracts\<close>

lemma convex_between:
  fixes a b m M t :: real
  assumes "m \<le> a" "a \<le> M" "m \<le> b" "b \<le> M" "0 \<le> t" "t \<le> 1"
  shows "m \<le> a + t * (b - a) \<and> a + t * (b - a) \<le> M"
proof -
  have eq: "a + t * (b - a) = (1 - t) * a + t * b" by (simp add: algebra_simps)
  have "(1 - t) * m + t * m \<le> (1 - t) * a + t * b"
    using assms by (intro add_mono mult_left_mono) auto
  moreover have "(1 - t) * a + t * b \<le> (1 - t) * M + t * M"
    using assms by (intro add_mono mult_left_mono) auto
  ultimately show ?thesis unfolding eq by (simp add: algebra_simps)
qed

lemma np_percentile_within:
  assumes "xs \<noteq> []" and "valid_q q"
  shows "Min (set xs) \<le> np_percentile xs q \<and> np_percentile xs q \<le> Max (set xs)"
proof -
  define s where "s = sort xs"
  define n where "n = length s"
  define v where "v = q / 100 * real (n - 1)"
  define lo where "lo = nat \<lfloor>v\<rfloor>"
  define hi where "hi = min (lo + 1) (n - 1)"
  define t where "t = v - real lo"
  have n: "0 < n" using assms(1) by (simp add: n_def s_def)
  have q: "0 \<le> q" "q \<le> 100" using assms(2) by (simp_all add: valid_q_def)
  have v0: "0 \<le> v" using q by (simp add: v_def)
  have "q / 100 \<le> 1" using q by simp
  then have "q / 100 * real (n - 1) \<le> 1 * real (n - 1)"
    by (intro mult_right_mono) auto
  then have v1: "v \<le> real (n - 1)" by (simp add: v_def)
  have flo: "real lo = of_int \<lfloor>v\<rfloor>" using v0 by (simp add: lo_def)
  have "\<lfloor>v\<rfloor> \<le> int (n - 1)" using v1 by (simp add: floor_le_iff)
  then have lo_le: "lo \<le> n - 1" using v0 by (simp add: lo_def)
  then have lo_lt: "lo < n" using n by simp
  have hi_lt: "hi < n" using n by (simp add: hi_def)
  have t0: "0 \<le> t" using flo by (simp add: t_def)
  have t1: "t \<le> 1" using flo by (simp add: t_def) linarith
  have mem: "s ! i \<in> set xs" if "i < n" for i
    using that nth_mem [of i s] by (simp add: n_def s_def)
  have b_lo: "Min (set xs) \<le> s ! lo" "s ! lo \<le> Max (set xs)"
    using mem [OF lo_lt] by simp_all
  have b_hi: "Min (set xs) \<le> s ! hi" "s ! hi \<le> Max (set xs)"
    using mem [OF hi_lt] by simp_all
  have "np_percentile xs q = s ! lo + t * (s ! hi - s ! lo)"
    by (simp add: np_percentile_def Let_def s_def n_def v_def lo_def hi_def t_def)
  with convex_between [OF b_lo(1) b_lo(2) b_hi(1) b_hi(2) t0 t1] show ?thesis by simp
qed

lemma reference_lib_percentile_within: "percentile_within (reference_lib nan_px)"
  by (simp add: percentile_within_def reference_lib_def np_percentile_within)

lemma rescale_px_range:
  assumes "lo < hi"
  shows "0 \<le> rescale_px lo hi x \<and> rescale_px lo hi x \<le> 255"
proof -
  define y where "y = (clip (of_int x) lo hi - lo) / (hi - lo)"
  have c: "lo \<le> clip (of_int x) lo hi" "clip (of_int x) lo hi \<le> hi"
    using assms by (simp_all add: clip_def)
  have y0: "0 \<le> y" using c assms by (simp add: y_def)
  have y1: "y \<le> 1" using c assms by (simp add: y_def)
  have "0 \<le> y * 255" "y * 255 \<le> 255" using y0 y1 by simp_all
  then have "0 \<le> \<lfloor>y * 255\<rfloor>" "\<lfloor>y * 255\<rfloor> \<le> 255"
    by (simp_all add: floor_le_iff)
  with \<open>0 \<le> y * 255\<close> show ?thesis
    by (simp add: rescale_px_def trunc_def y_def)
qed

lemma rescale_px_low:
  assumes "lo < hi" and "of_int x \<le> lo"
  shows "rescale_px lo hi x = 0"
  using assms by (simp add: rescale_px_def clip_def trunc_def max_def min_def)

lemma rescale_px_high:
  assumes "lo < hi" and "hi \<le> of_int x"
  shows "rescale_px lo hi x = 255"
proof -
  have "clip (of_int x) lo hi = hi"
    using assms by (simp add: clip_def max_def min_def)
  moreover have "(hi - lo) / (hi - lo) = 1"
    using assms by simp
  ultimately show ?thesis
    by (simp add: rescale_px_def trunc_def)
qed

lemma reference_lib_rescale_to_bytes: "rescale_to_bytes (reference_lib nan_px)"
  unfolding rescale_to_bytes_def
  by (auto simp: reference_lib_def rescale_px_range rescale_px_low rescale_px_high)

section \<open>The rescaling branch without a fill mask\<close>

lemma uint8_Min_0: "(0 :: 8 word) \<in> set ws \<Longrightarrow> Min (set ws) = 0"
  by (rule Min_eqI) auto

lemma uint8_Max_255: "(255 :: 8 word) \<in> set ws \<Longrightarrow> Max (set ws) = 255"
proof (rule Max_eqI)
  fix y :: "8 word"
  have "unat y \<le> 255" by (rule uint8_range)
  then show "y \<le> 255" by (simp add: word_le_nat_alt)
qed auto

lemma percentiles_2x2:
  "percentile_of (reference_lib 0) (all_pixels band_2x2) 2 = 0 \<and>
   percentile_of (reference_lib 0) (all_pixels band_2x2) (100 - 2) = 194"
  by code_simp

text \<open>
  Claim C8. Take a library whose percentiles lie within the sample and whose rescale, for
  a proper range, sends the pixels at or below the low cut point to 0 and those at or
  above the high cut point to 255. For a non-empty band, no quality band and a percentile
  in [0, 100], whenever the two cut points differ (low below high: the band has more than
  one value between its tails), the output is a \<^verbatim>\<open>uint8\<close> array of the band's shape whose
  least value is exactly 0 and whose greatest value is exactly 255.
\<close>

theorem rescaling_spans_full_range:
  assumes "percentile_within L" and "rescale_to_bytes L"
    and "arrays bs ''qa'' = None" and "data band \<noteq> []" and "valid_q p"
    and "percentile_of L (all_pixels band) p < percentile_of L (all_pixels band) (100 - p)"
  shows "\<exists>out. modify_band L bs ''rescaling'' p c band = Inr out \<and> shape out = shape band \<and>
               Min (set (data out)) = 0 \<and> Max (set (data out)) = 255"
proof -
  define xs where "xs = all_pixels band"
  define vmin where "vmin = percentile_of L xs p"
  define vmax where "vmax = percentile_of L xs (100 - p)"
  have xs: "xs \<noteq> []" "length xs = length (data band)"
    using assms(4) by (simp_all add: xs_def all_pixels_def)
  have cp: "cut_points L xs p = (Finite vmin, Finite vmax)"
    using xs(1) by (simp add: cut_points_def vmin_def vmax_def split: list.splits)
  have lt: "vmin < vmax" using assms(6) by (simp add: vmin_def vmax_def xs_def)
  from assms(2) lt obtain b' where b': "rescale_intensity L band (Finite vmin, Finite vmax) = Inr b'"
    "shape b' = shape band" "length (data b') = length (data band)"
    and px: "\<And>i. i < length (data band) \<Longrightarrow>
               (of_int (data band ! i) \<le> vmin \<longrightarrow> data b' ! i = 0) \<and>
               (vmax \<le> of_int (data band ! i) \<longrightarrow> data b' ! i = 255)"
    unfolding rescale_to_bytes_def by blast
  define out where "out = astype_uint8 b'"
  have res: "modify_band L bs ''rescaling'' p c band = Inr out"
    using modify_band_without_qa [OF assms(3,5,4), of L c] cp b'(1)
    by (simp add: xs_def out_def)
  have bounds: "Min (set xs) \<le> vmin" "vmax \<le> Max (set xs)"
    using assms(1) xs(1) assms(5) valid_q_complement [OF assms(5)]
    by (simp_all add: percentile_within_def vmin_def vmax_def)
  have "Min (set xs) \<in> set xs" using xs(1) by simp
  then obtain i where i: "i < length xs" "xs ! i = Min (set xs)"
    by (auto simp: in_set_conv_nth)
  have "Max (set xs) \<in> set xs" using xs(1) by simp
  then obtain j where j: "j < length xs" "xs ! j = Max (set xs)"
    by (auto simp: in_set_conv_nth)
  have nth_xs: "xs ! k = of_int (data band ! k)" if "k < length (data band)" for k
    using that by (simp add: xs_def all_pixels_def)
  have "data b' ! i = 0"
    using px [of i] i bounds(1) xs(2) nth_xs [of i] by simp
  moreover have "i < length (data out)" using i(1) xs(2) b'(3) by (simp add: out_def astype_uint8_def)
  moreover have "data out ! i = word_of_int (data b' ! i)"
    using i(1) xs(2) b'(3) by (simp add: out_def astype_uint8_def)
  ultimately have zero: "0 \<in> set (data out)"
    by (metis nth_mem word_of_int_0)
  have "data b' ! j = 255"
    using px [of j] j bounds(2) xs(2) nth_xs [of j] by simp
  moreover have "j < length (data out)" using j(1) xs(2) b'(3) by (simp add: out_def astype_uint8_def)
  moreover have "data out ! j = word_of_int (data b' ! j)"
    using j(1) xs(2) b'(3) by (simp add: out_def astype_uint8_def)
  ultimately have full: "255 \<in> set (data out)"
    by (metis nth_mem word_of_int_numeral)
  have "shape out = shape band" using b'(2) by (simp add: out_def astype_uint8_def)
  with res uint8_Min_0 [OF zero] uint8_Max_255 [OF full] show ?thesis by blast
qed

theorem rescaling_spans_full_range_witness:
  "percentile_within (reference_lib 0) \<and> rescale_to_bytes (reference_lib 0) \<and>
   arrays scene_2x2 ''qa'' = None \<and> data band_2x2 \<noteq> [] \<and> valid_q 2 \<and>
   percentile_of (reference_lib 0) (all_pixels band_2x2) 2 <
     percentile_of (reference_lib 0) (all_pixels band_2x2) (100 - 2) \<and>
   (\<exists>out. modify_band (reference_lib 0) scene_2x2 ''rescaling'' 2 (3 / 100) band_2x2 = Inr out \<and>
          Min (set (data out)) = 0 \<and> Max (set (data out)) = 255)"
  using rescaling_spans_full_range [OF reference_lib_percentile_within reference_lib_rescale_to_bytes,
      of scene_2x2 band_2x2 2 0 "3 / 100"]
    reference_lib_percentile_within [of 0] reference_lib_rescale_to_bytes [of 0] percentiles_2x2
  by (auto simp: scene_2x2_def band_2x2_def valid_q_def)

lemma np_percentile_2x2:
  "np_percentile [0, 0, 100, 200] 2 = 0 \<and> np_percentile [0, 0, 100, 200] (100 - 2) = 194"
  by code_simp

lemma rescale_px_2x2:
  "map (rescale_px 0 194) [0, 0, 100, 200] = [0, 0, 131, 255]"
  by code_simp

text \<open>
  Claim C9. The spec's scenario on the reference library (numpy's linear percentile
  interpolation, the linear rescale): the band [[0, 0], [100, 200]] with no quality band
  and percentile 2 has the cut points 0 and 194 and is normalised to
  [[0, 0], [131, 255]]. The order of the inputs is kept, 0 < 131 < 255; the least input
  maps to 0 and the greatest to 255.
\<close>

theorem scenario_2x2_ordering:
  "modify_band (reference_lib nan_px) scene_2x2 ''rescaling'' 2 c band_2x2 =
     Inr (NDArray [2, 2] [0, 0, 131, 255]) \<and>
   (0 :: 8 word) < 131 \<and> (131 :: 8 word) < 255"
proof -
  have "arrays scene_2x2 ''qa'' = None" by (simp add: scene_2x2_def)
  moreover have "valid_q 2" by (simp add: valid_q_def)
  moreover have "data band_2x2 \<noteq> []" by (simp add: band_2x2_def)
  ultimately have "modify_band (reference_lib nan_px) scene_2x2 ''rescaling'' 2 c band_2x2 =
      (case rescale_intensity (reference_lib nan_px) band_2x2
              (cut_points (reference_lib nan_px) (all_pixels band_2x2) 2) of
         Inl e \<Rightarrow> Inl e
       | Inr modified_band \<Rightarrow> Inr (astype_uint8 modified_band))"
    by (rule modify_band_without_qa)
  then show ?thesis
    using np_percentile_2x2 rescale_px_2x2
    by (simp add: reference_lib_def cut_points_def all_pixels_def band_2x2_def astype_uint8_def)
qed

section \<open>Equal cut points\<close>

lemma clip_degenerate: "clip x v v = v"
  by (simp add: clip_def)

lemma reference_lib_degenerate: "degenerate_range_constant (reference_lib nan_px)"
  by (simp add: degenerate_range_constant_def reference_lib_def map_replicate_const)

lemma clipping_lib_degenerate: "degenerate_range_constant clipping_lib"
  by (simp add: degenerate_range_constant_def clipping_lib_def clip_degenerate map_replicate_const)

lemma equal_cut_points_const:
  "cut_points (reference_lib 0) (sample_pixels scene_const band_const) 2 = (Finite 100, Finite 100) \<and>
   cut_points clipping_lib (sample_pixels scene_const band_const) 2 = (Finite 100, Finite 100) \<and>
   modify_band (reference_lib 0) scene_const ''rescaling'' 2 (3 / 100) band_const =
     Inr (NDArray [2, 2] [0, 0, 0, 0])"
  by code_simp

text \<open>
  Claim C3, as the code has it. \<^verbatim>\<open>create_rgb_stack\<close> has no rule of its own for equal cut
  points and divides nowhere itself: it hands the range to \<^verbatim>\<open>rescale_intensity\<close>. For a
  library that answers a range with coinciding ends without raising and with one value
  for all pixels, the normalisation of a non-empty band with equal cut points returns a
  \<^verbatim>\<open>uint8\<close> band of the input's shape whose pixels all have one and the same value. Which
  value that is, is the library's rule.
\<close>

theorem equal_cut_points_single_value:
  assumes "degenerate_range_constant L"
    and "case arrays bs ''qa'' of None \<Rightarrow> True
         | Some qa \<Rightarrow> shape qa = shape band \<and> length (data qa) = length (data band)"
    and "valid_q p" and "data band \<noteq> []"
    and "cut_points L (sample_pixels bs band) p = (Finite v, Finite v)"
  shows "\<exists>k. modify_band L bs ''rescaling'' p c band =
               Inr (NDArray (shape band) (replicate (length (data band)) k))"
proof -
  from assms(1,4) obtain k where
    "rescale_intensity L band (Finite v, Finite v) =
       Inr (NDArray (shape band) (replicate (length (data band)) k))"
    unfolding degenerate_range_constant_def by blast
  with modify_band_rescaling_form [OF assms(2,3,4), of L c] assms(5)
  have "modify_band L bs ''rescaling'' p c band =
          Inr (NDArray (shape band) (replicate (length (data band)) (word_of_int k)))"
    by (simp add: astype_uint8_def)
  then show ?thesis by blast
qed

theorem equal_cut_points_witness:
  "degenerate_range_constant (reference_lib 0) \<and> arrays scene_const ''qa'' = None \<and> valid_q 2 \<and>
   data band_const \<noteq> [] \<and>
   cut_points (reference_lib 0) (sample_pixels scene_const band_const) 2 = (Finite 100, Finite 100) \<and>
   modify_band (reference_lib 0) scene_const ''rescaling'' 2 (3 / 100) band_const =
     Inr (NDArray [2, 2] [0, 0, 0, 0])"
  using equal_cut_points_single_value [where L = "reference_lib 0" and bs = scene_const
      and band = band_const and p = 2 and v = 100 and c = "3 / 100", OF reference_lib_degenerate]
    reference_lib_degenerate [of 0] equal_cut_points_const
  by (simp add: scene_const_def band_const_def valid_q_def)

text \<open>
  The claim as stated has every pixel at a bound, 0 or 255. Under the rule of the later
  scikit-image releases the constant band of value 100, whose two cut points are both
  100, is normalised to the value 100 in every pixel.
\<close>

theorem equal_cut_points_counterexample:
  "cut_points clipping_lib (all_pixels band_const) 2 = (Finite 100, Finite 100) \<and>
   modify_band clipping_lib scene_const ''rescaling'' 2 (3 / 100) band_const =
     Inr (NDArray [2, 2] [100, 100, 100, 100])"
  by code_simp

end
